theory Spec2Isabelle
  imports Main
begin

section \<open>JavaScript values read by the application\<close>

text \<open>
  Two kinds of possibly-undefined values occur in the sources: the environment strings
  \<^verbatim>\<open>import.meta.env.VITE_*\<close> (a string or \<^verbatim>\<open>undefined\<close>) and the adapter's
  \<^verbatim>\<open>keycloak.authenticated\<close> (a boolean or \<^verbatim>\<open>undefined\<close>). Both are options, with
  \<open>None\<close> for \<^verbatim>\<open>undefined\<close>. JavaScript truthiness is written out: \<^verbatim>\<open>undefined\<close>,
  the empty string and \<^verbatim>\<open>false\<close> are falsy.
\<close>

definition truthy_string :: "string option \<Rightarrow> bool" where
  "truthy_string v = (case v of None \<Rightarrow> False | Some s \<Rightarrow> s \<noteq> [])"

definition truthy_bool :: "bool option \<Rightarrow> bool" where
  "truthy_bool v = (case v of None \<Rightarrow> False | Some b \<Rightarrow> b)"

text \<open>\<^verbatim>\<open>v || d\<close> with a string literal \<open>d\<close> on the right.\<close>

definition or_default :: "string option \<Rightarrow> string \<Rightarrow> string option" where
  "or_default v d = (if truthy_string v then v else Some d)"

text \<open>\<^verbatim>\<open>v ?? d\<close> on booleans: only \<^verbatim>\<open>undefined\<close> is replaced.\<close>

definition nullish :: "bool option \<Rightarrow> bool \<Rightarrow> bool" where
  "nullish v d = (case v of None \<Rightarrow> d | Some b \<Rightarrow> b)"

text \<open>
  A value the application only passes on (the rejection value of a promise), seen through
  what \<^verbatim>\<open>JSON.stringify(v, null, 2)\<close> does with it: \<open>JsValue s\<close> is a value it turns
  into the text \<open>s\<close>; \<open>JsUndefined\<close> one for which it returns \<^verbatim>\<open>undefined\<close>
  (\<^verbatim>\<open>undefined\<close> itself, a function, a symbol); \<open>JsUnserialisable\<close> one on which it
  throws a \<^verbatim>\<open>TypeError\<close> (an object with a circular reference, a \<^verbatim>\<open>BigInt\<close>).
\<close>

datatype js_value = JsValue string | JsUndefined | JsUnserialisable

datatype js_error = TypeError

fun JSON_stringify :: "js_value \<Rightarrow> js_error + string option" where
  "JSON_stringify (JsValue s) = Inr (Some s)"
| "JSON_stringify JsUndefined = Inr None"
| "JSON_stringify JsUnserialisable = Inl TypeError"

text \<open>A promise is pending (\<open>None\<close>) or settled one of two ways.\<close>

datatype 'a settled = Fulfilled 'a | Rejected js_value

section \<open>The Session Handle and what the application does to the outside\<close>

text \<open>The three variables of the build environment.\<close>

record env =
  VITE_KEYCLOAK_URL :: "string option"
  VITE_KEYCLOAK_REALM :: "string option"
  VITE_KEYCLOAK_CLIENT_ID :: "string option"

text \<open>The object literal given to \<^verbatim>\<open>new Keycloak({...})\<close>.\<close>

record keycloak_config =
  url :: "string option"
  realm :: "string option"
  clientId :: "string option"

text \<open>The object literal given to \<^verbatim>\<open>keycloak.init({...})\<close>.\<close>

record init_options =
  onLoad :: string
  pkceMethod :: string

text \<open>
  The part of the adapter instance that application code reads: the flag
  \<^verbatim>\<open>keycloak.authenticated\<close>, written by the adapter alone.
\<close>

record keycloak =
  authenticated :: "bool option"

text \<open>
  React elements. Host elements carry their tag and children (style attributes are left
  out); \<open>AppElement\<close> is \<^verbatim>\<open><App />\<close>, \<open>Outlet\<close> and \<open>Navigate\<close> are the two router
  elements that \<^verbatim>\<open>ProtectedRoute.tsx\<close> imports, \<open>Navigate\<close> with its \<^verbatim>\<open>to\<close>,
  \<^verbatim>\<open>replace\<close> and \<^verbatim>\<open>state\<close> properties.
\<close>

datatype element =
    Text string
  | Tag string "element list"
  | StrictMode "element list"
  | AppElement
  | Outlet
  | is_Navigate: Navigate (nav_to: string) (nav_replace: bool) (nav_state: "(string \<times> string) list")

datatype console_arg = Str string | Val js_value

text \<open>
  Every call the application makes on the browser, on React's root or on the adapter;
  \<open>UnhandledRejection\<close> marks a promise handler that ended by throwing, with no handler
  after it.
\<close>

datatype effect =
    NewKeycloak keycloak_config
  | Alert string
  | CreateRoot
  | RootRender element
  | KeycloakInit init_options
  | KeycloakLogin
  | KeycloakLogout
  | UpdateToken nat
  | ConsoleLog "console_arg list"
  | ConsoleWarn "console_arg list"
  | ConsoleError "console_arg list"
  | UnhandledRejection js_error

section \<open>The route guard: \<^verbatim>\<open>src/components/ProtectedRoute.tsx\<close>\<close>

definition unauthorized_view :: element where
  "unauthorized_view =
     Tag ''div'' [Tag ''h2'' [Text ''Unauthorized''],
                  Tag ''p'' [Text ''You need to log in to access this page.'']]"

text \<open>
  The component takes no properties and reads the flag of the module-level instance; it
  returns what it logs on the console and the element it renders.
\<close>

definition ProtectedRoute :: "keycloak \<Rightarrow> effect list \<times> element" where
  "ProtectedRoute kc =
     (let isAuthenticated = authenticated kc in
      if \<not> truthy_bool isAuthenticated
      then ([ConsoleWarn [Str ''User is not authenticated. Redirecting to Home.'']],
            unauthorized_view)
      else ([], Outlet))"

section \<open>The instance modules: \<^verbatim>\<open>src/keycloak.ts\<close> and \<^verbatim>\<open>src/security/keycloak.ts\<close>\<close>

definition keycloak_ts :: "env \<Rightarrow> effect list" where
  "keycloak_ts e =
     (let keycloakUrl = or_default (VITE_KEYCLOAK_URL e) ''http://localhost:7777'';
          keycloakRealm = or_default (VITE_KEYCLOAK_REALM e) ''viprealm'';
          keycloakClientId = or_default (VITE_KEYCLOAK_CLIENT_ID e) ''vipclient''
      in [NewKeycloak \<lparr>url = keycloakUrl, realm = keycloakRealm, clientId = keycloakClientId\<rparr>])"

definition security_keycloak_ts :: "env \<Rightarrow> effect list" where
  "security_keycloak_ts e =
     (let keycloakUrl = VITE_KEYCLOAK_URL e;
          keycloakRealm = VITE_KEYCLOAK_REALM e;
          keycloakClientId = VITE_KEYCLOAK_CLIENT_ID e
      in (if \<not> truthy_string keycloakUrl then [Alert ''Error ENV not Set !''] else [])
         @ [NewKeycloak \<lparr>url = keycloakUrl, realm = keycloakRealm, clientId = keycloakClientId\<rparr>])"

section \<open>Startup: \<^verbatim>\<open>src/main.tsx\<close>\<close>

definition loading_message :: element where
  "loading_message = Tag ''div'' [Text ''Initializing Keycloak...'']"

definition loading_view :: element where
  "loading_view = StrictMode [loading_message]"

definition app_view :: element where
  "app_view = StrictMode [AppElement]"

text \<open>
  The error panel, given what \<^verbatim>\<open>JSON.stringify(error, null, 2)\<close> returned: React
  renders a text child for a string and nothing for \<^verbatim>\<open>undefined\<close>.
\<close>

definition error_view :: "string option \<Rightarrow> element" where
  "error_view json =
     StrictMode
       [Tag ''div''
          [Tag ''h2'' [Text ''Error Initializing Keycloak''],
           Tag ''p'' [Text ''Could not connect to the authentication server. Please check the console for details and ensure Keycloak is running and configured correctly.''],
           Tag ''pre'' (case json of Some s \<Rightarrow> [Text s] | None \<Rightarrow> [])]]"

definition init_call :: effect where
  "init_call = KeycloakInit \<lparr>onLoad = ''login-required'', pkceMethod = ''S256''\<rparr>"

text \<open>
  The synchronous part of the module, up to and including the call of \<^verbatim>\<open>keycloak.init\<close>.
  Its argument says whether \<^verbatim>\<open>document.getElementById('root')\<close> found the element; if
  not, the module throws before anything else happens.
\<close>

definition main_sync :: "bool \<Rightarrow> string + effect list" where
  "main_sync rootElement =
     (if \<not> rootElement then Inl ''Failed to find the root element''
      else Inr [CreateRoot, RootRender loading_view, init_call])"

text \<open>The \<^verbatim>\<open>.then\<close> handler, run when the promise of \<^verbatim>\<open>init\<close> is fulfilled.\<close>

definition main_then :: "bool \<Rightarrow> effect list" where
  "main_then a =
     [ConsoleLog [Str (''Keycloak initialized. User is ''
                       @ (if a then ''authenticated'' else ''not authenticated'') @ ''.'')],
      RootRender app_view]"

text \<open>
  The \<^verbatim>\<open>.catch\<close> handler, run when it is rejected. (It is chained after
  \<^verbatim>\<open>.then\<close> and would also catch an exception thrown by that handler; the two calls
  of the \<^verbatim>\<open>.then\<close> handler are taken not to throw.) The error is logged first; the
  panel is then built, which evaluates \<^verbatim>\<open>JSON.stringify(error, null, 2)\<close>, and only
  then is \<^verbatim>\<open>root.render\<close> called: if \<^verbatim>\<open>JSON.stringify\<close> throws, the handler ends there
  and nothing is rendered.
\<close>

definition main_catch :: "js_value \<Rightarrow> effect list" where
  "main_catch err =
     ConsoleError [Str ''Keycloak initialization failed:'', Val err]
     # (case JSON_stringify err of
          Inl ex \<Rightarrow> [UnhandledRejection ex]
        | Inr json \<Rightarrow> [RootRender (error_view json)])"

definition main_settle :: "bool settled \<Rightarrow> effect list" where
  "main_settle s = (case s of Fulfilled a \<Rightarrow> main_then a | Rejected err \<Rightarrow> main_catch err)"

text \<open>
  The whole module, observed at a moment when the promise of \<^verbatim>\<open>init\<close> is still
  pending (\<open>None\<close>) or has settled: the calls made so far, in order.
\<close>

definition main_tsx :: "bool \<Rightarrow> bool settled option \<Rightarrow> string + effect list" where
  "main_tsx rootElement outcome =
     (case main_sync rootElement of
        Inl msg \<Rightarrow> Inl msg
      | Inr es \<Rightarrow> Inr (es @ (case outcome of None \<Rightarrow> [] | Some s \<Rightarrow> main_settle s)))"

text \<open>
  \<^verbatim>\<open>main.tsx\<close> imports \<^verbatim>\<open>./keycloak.ts\<close>, so that module is evaluated first. The
  result is the calls made and the uncaught error, if any.
\<close>

definition startup :: "env \<Rightarrow> bool \<Rightarrow> bool settled option \<Rightarrow> effect list \<times> string option" where
  "startup e rootElement outcome =
     (case main_tsx rootElement outcome of
        Inl msg \<Rightarrow> (keycloak_ts e, Some msg)
      | Inr es \<Rightarrow> (keycloak_ts e @ es, None))"

text \<open>Observers of a trace: the elements given to \<^verbatim>\<open>root.render\<close>, in order.\<close>

fun views :: "effect list \<Rightarrow> element list" where
  "views [] = []"
| "views (RootRender v # es) = v # views es"
| "views (_ # es) = views es"

text \<open>Whether \<^verbatim>\<open><App />\<close>, the tree that holds every route, occurs in an element.\<close>

primrec contains_app :: "element \<Rightarrow> bool"
  and contains_app_list :: "element list \<Rightarrow> bool" where
  "contains_app (Text t) = False"
| "contains_app (Tag n cs) = contains_app_list cs"
| "contains_app (StrictMode cs) = contains_app_list cs"
| "contains_app AppElement = True"
| "contains_app Outlet = False"
| "contains_app (Navigate t r s) = False"
| "contains_app_list [] = False"
| "contains_app_list (c # cs) = (contains_app c \<or> contains_app_list cs)"

text \<open>The text nodes of an element, in document order.\<close>

primrec texts :: "element \<Rightarrow> string list"
  and texts_list :: "element list \<Rightarrow> string list" where
  "texts (Text t) = [t]"
| "texts (Tag n cs) = texts_list cs"
| "texts (StrictMode cs) = texts_list cs"
| "texts AppElement = []"
| "texts Outlet = []"
| "texts (Navigate t r s) = []"
| "texts_list [] = []"
| "texts_list (c # cs) = texts c @ texts_list cs"

text \<open>Every element of a tree, the root first.\<close>

primrec nodes :: "element \<Rightarrow> element list"
  and nodes_list :: "element list \<Rightarrow> element list" where
  "nodes (Text t) = [Text t]"
| "nodes (Tag n cs) = Tag n cs # nodes_list cs"
| "nodes (StrictMode cs) = StrictMode cs # nodes_list cs"
| "nodes AppElement = [AppElement]"
| "nodes Outlet = [Outlet]"
| "nodes (Navigate t r s) = [Navigate t r s]"
| "nodes_list [] = []"
| "nodes_list (c # cs) = nodes c @ nodes_list cs"

fun is_init :: "effect \<Rightarrow> bool" where
  "is_init (KeycloakInit _) = True"
| "is_init _ = False"

fun is_logout :: "effect \<Rightarrow> bool" where
  "is_logout KeycloakLogout = True"
| "is_logout _ = False"

fun is_updateToken :: "effect \<Rightarrow> bool" where
  "is_updateToken (UpdateToken _) = True"
| "is_updateToken _ = False"

fun is_warn :: "effect \<Rightarrow> bool" where
  "is_warn (ConsoleWarn _) = True"
| "is_warn _ = False"

fun is_alert :: "effect \<Rightarrow> bool" where
  "is_alert (Alert _) = True"
| "is_alert _ = False"

fun rejected :: "'a settled option \<Rightarrow> bool" where
  "rejected (Some (Rejected _)) = True"
| "rejected _ = False"

section \<open>The Session Watcher: \<^verbatim>\<open>src/components/Navbar.tsx\<close>\<close>

text \<open>The component's state: the value held by \<^verbatim>\<open>useState\<close>.\<close>

record navbar_state =
  isAuthenticated :: "bool option"

definition Navbar_useState :: "keycloak \<Rightarrow> navbar_state" where
  "Navbar_useState kc = \<lparr>isAuthenticated = authenticated kc\<rparr>"

definition updateAuthState :: "keycloak \<Rightarrow> navbar_state \<Rightarrow> navbar_state" where
  "updateAuthState kc st = st\<lparr>isAuthenticated := Some (nullish (authenticated kc) False)\<rparr>"

definition onAuthRefreshError :: "effect list" where
  "onAuthRefreshError = [ConsoleWarn [Str ''Auth refresh error, logging out''], KeycloakLogout]"

text \<open>
  The handler of \<^verbatim>\<open>onTokenExpired\<close> together with the \<^verbatim>\<open>.catch\<close> it attaches to
  \<^verbatim>\<open>keycloak.updateToken(30)\<close>; the argument is how the adapter settles that call
  (\<open>None\<close>: not yet).
\<close>

definition onTokenExpired :: "bool settled option \<Rightarrow> effect list" where
  "onTokenExpired refresh =
     [ConsoleWarn [Str ''Token expired, attempting refresh''], UpdateToken 30]
     @ (case refresh of
          Some (Rejected err) \<Rightarrow>
            [ConsoleError [Str ''Failed to refresh token, logging out''], KeycloakLogout]
        | _ \<Rightarrow> [])"

text \<open>
  The five callback slots the effect assigns. An event is delivered together with what
  the adapter shows at that moment: its flag, and the fate of a refresh the handler asks
  for. The adapter is a library outside this repository, so nothing ties the flag to the
  kind of event; a handler and the continuation it attaches are taken as one step.
\<close>

datatype kc_event = AuthSuccess | AuthLogout | AuthRefreshSuccess | AuthRefreshError | TokenExpired

record delivery =
  event :: kc_event
  handle :: keycloak
  refresh :: "bool settled option"

definition deliver :: "delivery \<Rightarrow> navbar_state \<Rightarrow> effect list \<times> navbar_state" where
  "deliver d st =
     (case event d of
        AuthSuccess \<Rightarrow> ([], updateAuthState (handle d) st)
      | AuthLogout \<Rightarrow> ([], updateAuthState (handle d) st)
      | AuthRefreshSuccess \<Rightarrow> ([], updateAuthState (handle d) st)
      | AuthRefreshError \<Rightarrow> (onAuthRefreshError, st)
      | TokenExpired \<Rightarrow> (onTokenExpired (refresh d), st))"

text \<open>The body of \<^verbatim>\<open>useEffect\<close>: the slots are assigned, then the "initial check".\<close>

definition Navbar_useEffect :: "keycloak \<Rightarrow> navbar_state \<Rightarrow> navbar_state" where
  "Navbar_useEffect kc st = updateAuthState kc st"

text \<open>A sequence of deliveries, the calls they cause and the final state.\<close>

fun run :: "delivery list \<Rightarrow> navbar_state \<Rightarrow> effect list \<times> navbar_state" where
  "run [] st = ([], st)"
| "run (d # ds) st =
     (let (es, st') = deliver d st; (es', st'') = run ds st' in (es @ es', st''))"

definition handleLogin :: "effect list" where
  "handleLogin = [KeycloakLogin]"

definition handleLogout :: "effect list" where
  "handleLogout = [Alert ''logout'', KeycloakLogout]"


section \<open>The guard on a settled and on an unsettled handle\<close>

lemma ProtectedRoute_falsy:
  "\<not> truthy_bool (authenticated kc) \<Longrightarrow>
   ProtectedRoute kc =
     ([ConsoleWarn [Str ''User is not authenticated. Redirecting to Home.'']],
      Tag ''div'' [Tag ''h2'' [Text ''Unauthorized''],
                   Tag ''p'' [Text ''You need to log in to access this page.'']])"
  by (simp add: ProtectedRoute_def unauthorized_view_def)

lemma ProtectedRoute_truthy:
  "truthy_bool (authenticated kc) \<Longrightarrow> ProtectedRoute kc = ([], Outlet)"
  by (simp add: ProtectedRoute_def)

text \<open>
  C9. For every render of the route guard in which the flag of the Session Handle is
  still undefined, the guard takes the branch it takes for \<open>authenticated = false\<close>: it
  logs the same warning and renders the same inline message, a heading "Unauthorized"
  over the sentence "You need to log in to access this page.", with the wrapped subtree
  nowhere in it. The two states cannot be told apart from what the guard returns.
\<close>

theorem ProtectedRoute_undefined_as_false:
  "authenticated kc = None \<Longrightarrow> authenticated kc' = Some False \<Longrightarrow>
   ProtectedRoute kc = ProtectedRoute kc'
   \<and> ProtectedRoute kc =
       ([ConsoleWarn [Str ''User is not authenticated. Redirecting to Home.'']],
        Tag ''div'' [Tag ''h2'' [Text ''Unauthorized''],
                     Tag ''p'' [Text ''You need to log in to access this page.'']])
   \<and> texts (snd (ProtectedRoute kc)) = [''Unauthorized'', ''You need to log in to access this page.'']
   \<and> Outlet \<notin> set (nodes (snd (ProtectedRoute kc)))"
  by (simp add: ProtectedRoute_falsy truthy_bool_def)

theorem ProtectedRoute_undefined_as_false_witness:
  "ProtectedRoute \<lparr>authenticated = None\<rparr> = ProtectedRoute \<lparr>authenticated = Some False\<rparr>
   \<and> texts (snd (ProtectedRoute \<lparr>authenticated = None\<rparr>))
       = [''Unauthorized'', ''You need to log in to access this page.'']
   \<and> Outlet \<notin> set (nodes (snd (ProtectedRoute \<lparr>authenticated = None\<rparr>)))"
proof -
  have h1: "authenticated \<lparr>authenticated = None\<rparr> = None" by simp
  have h2: "authenticated \<lparr>authenticated = Some False\<rparr> = Some False" by simp
  from ProtectedRoute_undefined_as_false [OF h1 h2] show ?thesis by blast
qed

text \<open>
  C1, as stated, fails: with the flag still undefined the guard does not render the
  loading message of \<^verbatim>\<open>main.tsx\<close> (neither the bare message nor its strict-mode
  wrapping, nor its text anywhere) but logs a warning and renders the Unauthorized
  message, which is the denial outcome.
\<close>

theorem ProtectedRoute_unsettled_counterexample:
  "ProtectedRoute \<lparr>authenticated = None\<rparr> =
     ([ConsoleWarn [Str ''User is not authenticated. Redirecting to Home.'']],
      Tag ''div'' [Tag ''h2'' [Text ''Unauthorized''],
                   Tag ''p'' [Text ''You need to log in to access this page.'']])
   \<and> snd (ProtectedRoute \<lparr>authenticated = None\<rparr>) \<noteq> Tag ''div'' [Text ''Initializing Keycloak...'']
   \<and> snd (ProtectedRoute \<lparr>authenticated = None\<rparr>)
       \<noteq> StrictMode [Tag ''div'' [Text ''Initializing Keycloak...'']]
   \<and> ''Initializing Keycloak...'' \<notin> set (texts (snd (ProtectedRoute \<lparr>authenticated = None\<rparr>)))"
  by (simp add: ProtectedRoute_falsy truthy_bool_def)

text \<open>
  C1, amended. Whenever the flag of the Session Handle is still undefined, a render of
  the Access Gate never allows the wrapped subtree (no outlet anywhere in what it
  returns): it logs one warning and produces the inline Unauthorized message. The guard
  has no loading state of its own; the loading message "Initializing Keycloak..." belongs
  to startup, which has rendered only that message, and not the application tree that
  holds the guard, while initialization is pending.
\<close>

theorem ProtectedRoute_unsettled_denies:
  "authenticated kc = None \<Longrightarrow>
   ProtectedRoute kc =
       ([ConsoleWarn [Str ''User is not authenticated. Redirecting to Home.'']],
        Tag ''div'' [Tag ''h2'' [Text ''Unauthorized''],
                     Tag ''p'' [Text ''You need to log in to access this page.'']])
   \<and> Outlet \<notin> set (nodes (snd (ProtectedRoute kc)))
   \<and> texts (snd (ProtectedRoute kc)) = [''Unauthorized'', ''You need to log in to access this page.'']
   \<and> (\<exists>es. main_tsx True None = Inr es
            \<and> views es = [StrictMode [Tag ''div'' [Text ''Initializing Keycloak...'']]]
            \<and> \<not> contains_app_list (views es))"
  by (simp add: ProtectedRoute_falsy truthy_bool_def
      main_tsx_def main_sync_def init_call_def loading_view_def loading_message_def)

theorem ProtectedRoute_unsettled_denies_witness:
  "ProtectedRoute \<lparr>authenticated = None\<rparr> =
       ([ConsoleWarn [Str ''User is not authenticated. Redirecting to Home.'']],
        Tag ''div'' [Tag ''h2'' [Text ''Unauthorized''],
                     Tag ''p'' [Text ''You need to log in to access this page.'']])
   \<and> Outlet \<notin> set (nodes (snd (ProtectedRoute \<lparr>authenticated = None\<rparr>)))"
proof -
  have h: "authenticated \<lparr>authenticated = None\<rparr> = None" by simp
  from ProtectedRoute_unsettled_denies [OF h] show ?thesis by blast
qed

text \<open>
  C3, as stated, fails: after initialization has settled with \<open>authenticated = false\<close>
  the guard in front of \<^verbatim>\<open>/protected\<close> renders the Unauthorized message in place.
  Nothing in what it returns is a \<open>Navigate\<close> element, so there is no redirect to
  \<^verbatim>\<open>/login\<close> and no Navigation Intent \<^verbatim>\<open>{from: "/protected"}\<close>.
\<close>

theorem ProtectedRoute_denied_counterexample:
  "ProtectedRoute \<lparr>authenticated = Some False\<rparr> =
     ([ConsoleWarn [Str ''User is not authenticated. Redirecting to Home.'']],
      Tag ''div'' [Tag ''h2'' [Text ''Unauthorized''],
                   Tag ''p'' [Text ''You need to log in to access this page.'']])
   \<and> filter is_Navigate (nodes (snd (ProtectedRoute \<lparr>authenticated = Some False\<rparr>))) = []
   \<and> Navigate ''/login'' True [(''from'', ''/protected'')]
       \<notin> set (nodes (snd (ProtectedRoute \<lparr>authenticated = Some False\<rparr>)))
   \<and> Navigate ''/login'' False [(''from'', ''/protected'')]
       \<notin> set (nodes (snd (ProtectedRoute \<lparr>authenticated = Some False\<rparr>)))"
  by (simp add: ProtectedRoute_falsy truthy_bool_def)

text \<open>
  C3, amended. For every render of the Access Gate after initialization has settled with
  \<open>authenticated = false\<close>, the gate yields its one denial behaviour, the inline message
  (a heading "Unauthorized" over "You need to log in to access this page."), once per
  render and with one console warning as its only effect. It issues no redirect (no
  \<open>Navigate\<close> element anywhere in what it returns, hence no Navigation Intent), does not
  show the wrapped subtree, and calls neither login nor any other entry point of the
  adapter.
\<close>

theorem ProtectedRoute_denied_inline:
  "authenticated kc = Some False \<Longrightarrow>
   ProtectedRoute kc =
       ([ConsoleWarn [Str ''User is not authenticated. Redirecting to Home.'']],
        Tag ''div'' [Tag ''h2'' [Text ''Unauthorized''],
                     Tag ''p'' [Text ''You need to log in to access this page.'']])
   \<and> texts (snd (ProtectedRoute kc)) = [''Unauthorized'', ''You need to log in to access this page.'']
   \<and> filter is_Navigate (nodes (snd (ProtectedRoute kc))) = []
   \<and> Outlet \<notin> set (nodes (snd (ProtectedRoute kc)))
   \<and> length (filter is_warn (fst (ProtectedRoute kc))) = 1
   \<and> length (fst (ProtectedRoute kc)) = 1"
  by (simp add: ProtectedRoute_falsy truthy_bool_def)

theorem ProtectedRoute_denied_inline_witness:
  "texts (snd (ProtectedRoute \<lparr>authenticated = Some False\<rparr>))
     = [''Unauthorized'', ''You need to log in to access this page.'']
   \<and> filter is_Navigate (nodes (snd (ProtectedRoute \<lparr>authenticated = Some False\<rparr>))) = []
   \<and> length (fst (ProtectedRoute \<lparr>authenticated = Some False\<rparr>)) = 1"
proof -
  have h: "authenticated \<lparr>authenticated = Some False\<rparr> = Some False" by simp
  from ProtectedRoute_denied_inline [OF h] show ?thesis by blast
qed

section \<open>Configuration\<close>

lemma truthy_or_default: "d \<noteq> [] \<Longrightarrow> truthy_string (or_default v d)"
  by (simp add: or_default_def truthy_string_def)

lemma main_tsx_root:
  "main_tsx True outcome =
     Inr ([CreateRoot, RootRender loading_view, init_call]
          @ (case outcome of None \<Rightarrow> [] | Some s \<Rightarrow> main_settle s))"
  by (simp add: main_tsx_def main_sync_def)

lemma main_tsx_no_root: "main_tsx False outcome = Inl ''Failed to find the root element''"
  by (simp add: main_tsx_def main_sync_def)

lemma main_catch_cases:
  "main_catch err =
     ConsoleError [Str ''Keycloak initialization failed:'', Val err]
     # (if err = JsUnserialisable then [UnhandledRejection TypeError]
        else [RootRender (error_view (case err of JsValue s \<Rightarrow> Some s | _ \<Rightarrow> None))])"
  by (cases err) (simp_all add: main_catch_def)

lemma main_settle_no_alert: "filter is_alert (main_settle s) = []"
  by (cases s) (simp_all add: main_settle_def main_then_def main_catch_cases)

lemma main_settle_no_init: "filter is_init (main_settle s) = []"
  by (cases s) (simp_all add: main_settle_def main_then_def main_catch_cases)

text \<open>
  C2, as stated, fails: with the endpoint missing from the environment (and the realm and
  client of the spec's scenario present), startup raises nothing and shows no message;
  \<^verbatim>\<open>src/keycloak.ts\<close> puts its default in place of the endpoint, the adapter is
  constructed and \<^verbatim>\<open>keycloak.init\<close> is called.
\<close>

theorem startup_missing_endpoint_counterexample:
  "startup \<lparr>VITE_KEYCLOAK_URL = None, VITE_KEYCLOAK_REALM = Some ''r1'',
            VITE_KEYCLOAK_CLIENT_ID = Some ''c1''\<rparr> True None
   = ([NewKeycloak \<lparr>url = Some ''http://localhost:7777'', realm = Some ''r1'',
                    clientId = Some ''c1''\<rparr>,
       CreateRoot,
       RootRender (StrictMode [Tag ''div'' [Text ''Initializing Keycloak...'']]),
       KeycloakInit \<lparr>onLoad = ''login-required'', pkceMethod = ''S256''\<rparr>], None)"
  by (simp add: startup_def main_tsx_root keycloak_ts_def or_default_def truthy_string_def
      loading_view_def loading_message_def init_call_def)

text \<open>
  C2, amended. For every environment, \<^verbatim>\<open>src/keycloak.ts\<close> (the module that
  \<^verbatim>\<open>main.tsx\<close> imports) replaces each missing or empty value by its built-in default
  (\<^verbatim>\<open>http://localhost:7777\<close>, \<^verbatim>\<open>viprealm\<close>, \<^verbatim>\<open>vipclient\<close>) and keeps each value
  that is present, so the adapter is always constructed with three non-empty values and
  no message is shown. Whether startup then goes on does not depend on the environment:
  if the page has its root element, startup shows no alert and calls \<^verbatim>\<open>keycloak.init\<close>
  exactly once; if it has not, \<^verbatim>\<open>main.tsx\<close> throws "Failed to find the root element"
  after the adapter was constructed, and \<^verbatim>\<open>keycloak.init\<close> is not called. In
  \<^verbatim>\<open>src/security/keycloak.ts\<close> a missing or empty endpoint raises the alert
  \<^verbatim>\<open>Error ENV not Set !\<close>.
\<close>

theorem keycloak_ts_defaults:
  "\<exists>cfg. keycloak_ts e = [NewKeycloak cfg]
     \<and> url cfg = (if truthy_string (VITE_KEYCLOAK_URL e) then VITE_KEYCLOAK_URL e
                  else Some ''http://localhost:7777'')
     \<and> realm cfg = (if truthy_string (VITE_KEYCLOAK_REALM e) then VITE_KEYCLOAK_REALM e
                    else Some ''viprealm'')
     \<and> clientId cfg = (if truthy_string (VITE_KEYCLOAK_CLIENT_ID e) then VITE_KEYCLOAK_CLIENT_ID e
                       else Some ''vipclient'')
     \<and> truthy_string (url cfg) \<and> truthy_string (realm cfg) \<and> truthy_string (clientId cfg)
     \<and> filter is_alert (keycloak_ts e) = []
     \<and> filter is_alert (fst (startup e True outcome)) = []
     \<and> snd (startup e True outcome) = None
     \<and> filter is_init (fst (startup e True outcome))
         = [KeycloakInit \<lparr>onLoad = ''login-required'', pkceMethod = ''S256''\<rparr>]
     \<and> startup e False outcome = ([NewKeycloak cfg], Some ''Failed to find the root element'')
     \<and> filter is_init (fst (startup e False outcome)) = []
     \<and> (\<not> truthy_string (VITE_KEYCLOAK_URL e) \<longrightarrow>
          Alert ''Error ENV not Set !'' \<in> set (security_keycloak_ts e))"
proof -
  let ?cfg = "\<lparr>url = or_default (VITE_KEYCLOAK_URL e) ''http://localhost:7777'',
               realm = or_default (VITE_KEYCLOAK_REALM e) ''viprealm'',
               clientId = or_default (VITE_KEYCLOAK_CLIENT_ID e) ''vipclient''\<rparr>"
  have k: "keycloak_ts e = [NewKeycloak ?cfg]"
    by (simp add: keycloak_ts_def)
  have fields: "url ?cfg = (if truthy_string (VITE_KEYCLOAK_URL e) then VITE_KEYCLOAK_URL e
                  else Some ''http://localhost:7777'')"
    "realm ?cfg = (if truthy_string (VITE_KEYCLOAK_REALM e) then VITE_KEYCLOAK_REALM e
                    else Some ''viprealm'')"
    "clientId ?cfg = (if truthy_string (VITE_KEYCLOAK_CLIENT_ID e) then VITE_KEYCLOAK_CLIENT_ID e
                       else Some ''vipclient'')"
    by (simp_all add: or_default_def)
  have nonempty: "truthy_string (url ?cfg)" "truthy_string (realm ?cfg)"
    "truthy_string (clientId ?cfg)"
    by (simp_all add: truthy_or_default)
  have st: "startup e True outcome =
      (keycloak_ts e @ [CreateRoot, RootRender loading_view, init_call]
         @ (case outcome of None \<Rightarrow> [] | Some s \<Rightarrow> main_settle s), None)"
    by (simp add: startup_def main_tsx_root)
  have quiet0: "filter is_alert (keycloak_ts e) = []"
    by (simp add: k)
  have quiet: "filter is_alert (fst (startup e True outcome)) = []"
    unfolding st by (simp add: k init_call_def main_settle_no_alert split: option.split)
  have noerr: "snd (startup e True outcome) = None"
    by (simp add: st)
  have init: "filter is_init (fst (startup e True outcome))
         = [KeycloakInit \<lparr>onLoad = ''login-required'', pkceMethod = ''S256''\<rparr>]"
    unfolding st by (simp add: k init_call_def main_settle_no_init split: option.split)
  have noroot: "startup e False outcome = ([NewKeycloak ?cfg], Some ''Failed to find the root element'')"
    by (simp add: startup_def main_tsx_no_root k)
  have noinit: "filter is_init (fst (startup e False outcome)) = []"
    by (simp add: noroot)
  have alert: "\<not> truthy_string (VITE_KEYCLOAK_URL e) \<longrightarrow>
          Alert ''Error ENV not Set !'' \<in> set (security_keycloak_ts e)"
    by (simp add: security_keycloak_ts_def)
  from k fields nonempty quiet0 quiet noerr init noroot noinit alert show ?thesis
    by (intro exI [of _ ?cfg] conjI)
qed

theorem keycloak_ts_defaults_witness:
  "Alert ''Error ENV not Set !''
       \<in> set (security_keycloak_ts \<lparr>VITE_KEYCLOAK_URL = None, VITE_KEYCLOAK_REALM = Some ''r1'',
            VITE_KEYCLOAK_CLIENT_ID = Some ''c1''\<rparr>)
   \<and> filter is_init (fst (startup \<lparr>VITE_KEYCLOAK_URL = None, VITE_KEYCLOAK_REALM = Some ''r1'',
            VITE_KEYCLOAK_CLIENT_ID = Some ''c1''\<rparr> True None))
       = [KeycloakInit \<lparr>onLoad = ''login-required'', pkceMethod = ''S256''\<rparr>]
   \<and> filter is_init (fst (startup \<lparr>VITE_KEYCLOAK_URL = None, VITE_KEYCLOAK_REALM = Some ''r1'',
            VITE_KEYCLOAK_CLIENT_ID = Some ''c1''\<rparr> False None)) = []"
proof -
  have h: "\<not> truthy_string (VITE_KEYCLOAK_URL \<lparr>VITE_KEYCLOAK_URL = None,
            VITE_KEYCLOAK_REALM = Some ''r1'', VITE_KEYCLOAK_CLIENT_ID = Some ''c1''\<rparr>)"
    by (simp add: truthy_string_def)
  from keycloak_ts_defaults [of "\<lparr>VITE_KEYCLOAK_URL = None, VITE_KEYCLOAK_REALM = Some ''r1'',
            VITE_KEYCLOAK_CLIENT_ID = Some ''c1''\<rparr>" None] h
  show ?thesis by blast
qed

section \<open>Startup before and after initialization settles\<close>

lemma main_then_views: "views (main_then a) = [StrictMode [AppElement]]"
  by (simp add: main_then_def app_view_def)

lemma main_catch_views:
  "views (main_catch err) =
     (if err = JsUnserialisable then []
      else [error_view (case err of JsValue s \<Rightarrow> Some s | _ \<Rightarrow> None)])"
  by (simp add: main_catch_cases)

lemma error_view_no_app: "\<not> contains_app (error_view json)"
  by (cases json) (simp_all add: error_view_def)

lemma main_catch_no_app: "\<not> contains_app_list (views (main_catch err))"
  by (simp add: main_catch_views error_view_no_app)

text \<open>
  C5. While the initialization call is pending, the only thing rendered is the neutral
  loading message, the text "Initializing Keycloak...", which holds no route content.
  Whatever happens later comes after everything done while pending, and route content
  (the application tree) is rendered there only if the call has settled, namely when it
  has resolved; then the application tree is what is rendered.
\<close>

theorem main_tsx_loading_until_settled:
  "\<exists>pending post.
      main_tsx True None = Inr pending
    \<and> views pending = [StrictMode [Tag ''div'' [Text ''Initializing Keycloak...'']]]
    \<and> texts_list (views pending) = [''Initializing Keycloak...'']
    \<and> \<not> contains_app_list (views pending)
    \<and> KeycloakInit \<lparr>onLoad = ''login-required'', pkceMethod = ''S256''\<rparr> \<in> set pending
    \<and> main_tsx True outcome = Inr (pending @ post)
    \<and> (outcome = None \<longrightarrow> post = [])
    \<and> (contains_app_list (views post) \<longrightarrow> outcome \<noteq> None)
    \<and> (contains_app_list (views post) = (\<exists>a. outcome = Some (Fulfilled a)))
    \<and> ((\<exists>a. outcome = Some (Fulfilled a)) \<longrightarrow> views post = [StrictMode [AppElement]])"
proof -
  let ?pending = "[CreateRoot, RootRender loading_view, init_call]"
  let ?post = "case outcome of None \<Rightarrow> [] | Some s \<Rightarrow> main_settle s"
  have a: "main_tsx True None = Inr ?pending"
    by (simp add: main_tsx_root)
  have b: "views ?pending = [StrictMode [Tag ''div'' [Text ''Initializing Keycloak...'']]]"
    by (simp add: init_call_def loading_view_def loading_message_def)
  have b': "texts_list (views ?pending) = [''Initializing Keycloak...'']"
    by (simp add: init_call_def loading_view_def loading_message_def)
  have c: "\<not> contains_app_list (views ?pending)"
    by (simp add: init_call_def loading_view_def loading_message_def)
  have i: "KeycloakInit \<lparr>onLoad = ''login-required'', pkceMethod = ''S256''\<rparr> \<in> set ?pending"
    by (simp add: init_call_def)
  have d: "main_tsx True outcome = Inr (?pending @ ?post)"
    by (simp add: main_tsx_root)
  have e: "contains_app_list (views ?post) = (\<exists>a. outcome = Some (Fulfilled a))"
  proof (cases outcome)
    case None
    then show ?thesis by simp
  next
    case (Some s)
    then show ?thesis
      by (cases s) (simp_all add: main_settle_def main_then_views main_catch_no_app)
  qed
  have f: "outcome = None \<longrightarrow> ?post = []"
    by simp
  have g: "contains_app_list (views ?post) \<longrightarrow> outcome \<noteq> None"
    using e by auto
  have h: "(\<exists>a. outcome = Some (Fulfilled a)) \<longrightarrow> views ?post = [StrictMode [AppElement]]"
    by (auto simp: main_settle_def main_then_views)
  from a b b' c i d f g e h show ?thesis
    by (intro exI [of _ ?pending] exI [of _ ?post] conjI)
qed

theorem main_tsx_loading_until_settled_witness:
  "main_tsx True (Some (Fulfilled False))
     = Inr ([CreateRoot, RootRender (StrictMode [Tag ''div'' [Text ''Initializing Keycloak...'']]),
             KeycloakInit \<lparr>onLoad = ''login-required'', pkceMethod = ''S256''\<rparr>]
            @ [ConsoleLog [Str ''Keycloak initialized. User is not authenticated.''],
               RootRender (StrictMode [AppElement])])
   \<and> contains_app_list (views [ConsoleLog [Str ''Keycloak initialized. User is not authenticated.''],
               RootRender (StrictMode [AppElement])])
   \<and> Some (Fulfilled False) \<noteq> (None :: bool settled option)"
proof -
  from main_tsx_loading_until_settled [of "Some (Fulfilled False)"]
  obtain pending post where
    p: "main_tsx True None = Inr pending"
    and t: "main_tsx True (Some (Fulfilled False)) = Inr (pending @ post)"
    and r: "contains_app_list (views post) = (\<exists>a. Some (Fulfilled False) = Some (Fulfilled a))"
    by blast
  from p have pending: "pending = [CreateRoot,
      RootRender (StrictMode [Tag ''div'' [Text ''Initializing Keycloak...'']]),
      KeycloakInit \<lparr>onLoad = ''login-required'', pkceMethod = ''S256''\<rparr>]"
    by (simp add: main_tsx_root loading_view_def loading_message_def init_call_def)
  from t pending have post: "post = [ConsoleLog [Str ''Keycloak initialized. User is not authenticated.''],
               RootRender (StrictMode [AppElement])]"
    by (simp add: main_tsx_root main_settle_def main_then_def app_view_def
        loading_view_def loading_message_def init_call_def)
  from r have "contains_app_list (views post)" by blast
  with t pending post show ?thesis by simp
qed

text \<open>
  What the failure handler does with a rejection value on which \<^verbatim>\<open>JSON.stringify\<close>
  throws: it has logged the failure, then ends without rendering, so the loading message
  stays on the screen.
\<close>

lemma main_tsx_init_failure_unserialisable:
  "main_tsx True (Some (Rejected JsUnserialisable)) =
     Inr [CreateRoot, RootRender loading_view, init_call,
          ConsoleError [Str ''Keycloak initialization failed:'', Val JsUnserialisable],
          UnhandledRejection TypeError]"
  by (simp add: main_tsx_root main_settle_def main_catch_def)



section \<open>The Session Watcher's handlers\<close>

lemma nullish_False: "nullish v False = (v = Some True)"
  by (cases v) (simp_all add: nullish_def)

lemma deliver_update:
  "event d = AuthSuccess \<or> event d = AuthLogout \<or> event d = AuthRefreshSuccess \<Longrightarrow>
   deliver d st = ([], st\<lparr>isAuthenticated := Some (nullish (authenticated (handle d)) False)\<rparr>)"
  by (auto simp: deliver_def updateAuthState_def)

lemma deliver_refresh_error:
  "event d = AuthRefreshError \<Longrightarrow> deliver d st = (onAuthRefreshError, st)"
  by (simp add: deliver_def)

lemma deliver_token_expired:
  "event d = TokenExpired \<Longrightarrow> deliver d st = (onTokenExpired (refresh d), st)"
  by (simp add: deliver_def)

lemma deliver_definite:
  "isAuthenticated st \<noteq> None \<Longrightarrow> isAuthenticated (snd (deliver d st)) \<noteq> None"
  by (cases "event d") (simp_all add: deliver_def updateAuthState_def)

lemma run_Cons:
  "run (d # ds) st = (fst (deliver d st) @ fst (run ds (snd (deliver d st))),
                      snd (run ds (snd (deliver d st))))"
  by (simp add: case_prod_beta Let_def)

declare run.simps(2) [simp del]

lemma run_definite:
  "isAuthenticated st \<noteq> None \<Longrightarrow> isAuthenticated (snd (run ds st)) \<noteq> None"
proof (induction ds arbitrary: st)
  case Nil
  then show ?case by simp
next
  case (Cons d ds)
  from Cons.prems have "isAuthenticated (snd (deliver d st)) \<noteq> None"
    by (rule deliver_definite)
  then have "isAuthenticated (snd (run ds (snd (deliver d st)))) \<noteq> None"
    by (rule Cons.IH)
  then show ?case by (simp add: run_Cons)
qed

lemma rejected_iff: "rejected r = (\<exists>err. r = Some (Rejected err))"
  by (cases r rule: rejected.cases) simp_all

lemma onTokenExpired_cases:
  "onTokenExpired r =
     [ConsoleWarn [Str ''Token expired, attempting refresh''], UpdateToken 30]
     @ (if rejected r
        then [ConsoleError [Str ''Failed to refresh token, logging out''], KeycloakLogout]
        else [])"
  by (cases r rule: rejected.cases) (simp_all add: onTokenExpired_def)

text \<open>
  C4, as stated, fails: two refresh-failure events in a row, the second arriving while
  nothing else has happened, make the watcher call logout twice.
\<close>

theorem refresh_error_twice_counterexample:
  "length (filter is_logout (fst (run
      [\<lparr>event = AuthRefreshError, handle = \<lparr>authenticated = Some True\<rparr>, refresh = None\<rparr>,
       \<lparr>event = AuthRefreshError, handle = \<lparr>authenticated = Some True\<rparr>, refresh = None\<rparr>]
      \<lparr>isAuthenticated = Some True\<rparr>))) = 2"
  by (simp add: run_Cons deliver_def onAuthRefreshError_def)

text \<open>
  C4, amended. For every sequence of token-refresh-failure events delivered by the
  adapter, the Session Watcher issues one logout call for each event, with no
  de-duplication: \<open>n\<close> events give exactly \<open>n\<close> logout calls. It never asks for a
  refresh again while handling them, and leaves the local flag as it was.
\<close>

theorem refresh_errors_logout_each:
  "\<forall>d \<in> set ds. event d = AuthRefreshError \<Longrightarrow>
   length (filter is_logout (fst (run ds st))) = length ds
   \<and> filter is_updateToken (fst (run ds st)) = []
   \<and> snd (run ds st) = st"
proof (induction ds arbitrary: st)
  case Nil
  then show ?case by simp
next
  case (Cons d ds)
  from Cons.prems have d: "deliver d st = (onAuthRefreshError, st)"
    by (simp add: deliver_refresh_error)
  from Cons.prems have "\<forall>d \<in> set ds. event d = AuthRefreshError"
    by simp
  from Cons.IH [OF this, of st] d show ?case
    by (simp add: run_Cons onAuthRefreshError_def)
qed

theorem refresh_errors_logout_each_witness:
  "length (filter is_logout (fst (run
      [\<lparr>event = AuthRefreshError, handle = \<lparr>authenticated = Some True\<rparr>, refresh = None\<rparr>,
       \<lparr>event = AuthRefreshError, handle = \<lparr>authenticated = Some False\<rparr>, refresh = None\<rparr>,
       \<lparr>event = AuthRefreshError, handle = \<lparr>authenticated = None\<rparr>, refresh = None\<rparr>]
      \<lparr>isAuthenticated = Some True\<rparr>))) = 3
   \<and> filter is_updateToken (fst (run
      [\<lparr>event = AuthRefreshError, handle = \<lparr>authenticated = Some True\<rparr>, refresh = None\<rparr>,
       \<lparr>event = AuthRefreshError, handle = \<lparr>authenticated = Some False\<rparr>, refresh = None\<rparr>,
       \<lparr>event = AuthRefreshError, handle = \<lparr>authenticated = None\<rparr>, refresh = None\<rparr>]
      \<lparr>isAuthenticated = Some True\<rparr>)) = []"
proof -
  let ?ds = "[\<lparr>event = AuthRefreshError, handle = \<lparr>authenticated = Some True\<rparr>, refresh = None\<rparr>,
              \<lparr>event = AuthRefreshError, handle = \<lparr>authenticated = Some False\<rparr>, refresh = None\<rparr>,
              \<lparr>event = AuthRefreshError, handle = \<lparr>authenticated = None\<rparr>, refresh = None\<rparr>]"
  have h: "\<forall>d \<in> set ?ds. event d = AuthRefreshError" by simp
  from refresh_errors_logout_each [OF h, of "\<lparr>isAuthenticated = Some True\<rparr>"]
  have n: "length (filter is_logout (fst (run ?ds \<lparr>isAuthenticated = Some True\<rparr>))) = length ?ds"
    and u: "filter is_updateToken (fst (run ?ds \<lparr>isAuthenticated = Some True\<rparr>)) = []"
    by blast+
  from n have "length (filter is_logout (fst (run ?ds \<lparr>isAuthenticated = Some True\<rparr>))) = 3"
    by simp
  with u show ?thesis by blast
qed

text \<open>
  C7. After the Session Watcher handles an auth-success event, which the adapter delivers
  with its own flag set to true, the locally observed flag is true; after it handles a
  logout event, which the adapter delivers with its flag cleared (false or undefined),
  the locally observed flag is false. In both cases the handler only writes the
  component's state: it makes no call, so nothing is reloaded.
\<close>

theorem updateAuthState_after_auth_events:
  "(event d = AuthSuccess \<longrightarrow> authenticated (handle d) = Some True \<longrightarrow>
      isAuthenticated (snd (deliver d st)) = Some True \<and> fst (deliver d st) = [])
   \<and> (event d = AuthLogout \<longrightarrow> authenticated (handle d) \<noteq> Some True \<longrightarrow>
      isAuthenticated (snd (deliver d st)) = Some False \<and> fst (deliver d st) = [])"
  by (auto simp: deliver_update nullish_False)

theorem updateAuthState_after_auth_events_witness:
  "isAuthenticated (snd (deliver
       \<lparr>event = AuthSuccess, handle = \<lparr>authenticated = Some True\<rparr>, refresh = None\<rparr>
       \<lparr>isAuthenticated = Some False\<rparr>)) = Some True
   \<and> isAuthenticated (snd (deliver
       \<lparr>event = AuthLogout, handle = \<lparr>authenticated = Some False\<rparr>, refresh = None\<rparr>
       \<lparr>isAuthenticated = Some True\<rparr>)) = Some False
   \<and> fst (deliver
       \<lparr>event = AuthSuccess, handle = \<lparr>authenticated = Some True\<rparr>, refresh = None\<rparr>
       \<lparr>isAuthenticated = Some False\<rparr>) = []"
proof -
  let ?s = "\<lparr>event = AuthSuccess, handle = \<lparr>authenticated = Some True\<rparr>, refresh = None\<rparr>"
  let ?l = "\<lparr>event = AuthLogout, handle = \<lparr>authenticated = Some False\<rparr>, refresh = None\<rparr>"
  have s1: "event ?s = AuthSuccess" and s2: "authenticated (handle ?s) = Some True"
    by simp_all
  have l1: "event ?l = AuthLogout" and l2: "authenticated (handle ?l) \<noteq> Some True"
    by simp_all
  from updateAuthState_after_auth_events [of ?s "\<lparr>isAuthenticated = Some False\<rparr>"] s1 s2
  have a: "isAuthenticated (snd (deliver ?s \<lparr>isAuthenticated = Some False\<rparr>)) = Some True"
    and c: "fst (deliver ?s \<lparr>isAuthenticated = Some False\<rparr>) = []"
    by blast+
  from updateAuthState_after_auth_events [of ?l "\<lparr>isAuthenticated = Some True\<rparr>"] l1 l2
  have b: "isAuthenticated (snd (deliver ?l \<lparr>isAuthenticated = Some True\<rparr>)) = Some False"
    by blast
  from a b c show ?thesis by blast
qed

text \<open>
  C8. On every token-expiry event the Session Watcher asks the adapter for a refresh with
  a validity margin of 30 seconds, once; it forces a logout if and only if that request
  fails (its promise is rejected), and then exactly once.
\<close>

theorem onTokenExpired_refresh_then_logout:
  "event d = TokenExpired \<Longrightarrow>
   filter is_updateToken (fst (deliver d st)) = [UpdateToken 30]
   \<and> (KeycloakLogout \<in> set (fst (deliver d st))) = (\<exists>err. refresh d = Some (Rejected err))
   \<and> length (filter is_logout (fst (deliver d st))) = (if rejected (refresh d) then 1 else 0)
   \<and> rejected (refresh d) = (\<exists>err. refresh d = Some (Rejected err))
   \<and> snd (deliver d st) = st"
  by (simp add: deliver_token_expired onTokenExpired_cases rejected_iff)

theorem onTokenExpired_refresh_then_logout_witness:
  "event \<lparr>event = TokenExpired, handle = \<lparr>authenticated = Some True\<rparr>,
           refresh = Some (Rejected (JsValue ''{}''))\<rparr> = TokenExpired
   \<and> filter is_updateToken (fst (deliver
         \<lparr>event = TokenExpired, handle = \<lparr>authenticated = Some True\<rparr>,
           refresh = Some (Rejected (JsValue ''{}''))\<rparr> \<lparr>isAuthenticated = Some True\<rparr>))
       = [UpdateToken 30]
   \<and> KeycloakLogout \<in> set (fst (deliver
         \<lparr>event = TokenExpired, handle = \<lparr>authenticated = Some True\<rparr>,
           refresh = Some (Rejected (JsValue ''{}''))\<rparr> \<lparr>isAuthenticated = Some True\<rparr>))"
proof -
  let ?d = "\<lparr>event = TokenExpired, handle = \<lparr>authenticated = Some True\<rparr>,
             refresh = Some (Rejected (JsValue ''{}''))\<rparr>"
  have h: "event ?d = TokenExpired" by simp
  have r: "\<exists>err. refresh ?d = Some (Rejected err)" by simp
  from onTokenExpired_refresh_then_logout [OF h, of "\<lparr>isAuthenticated = Some True\<rparr>"] h r
  show ?thesis by blast
qed

text \<open>
  C10, as stated, fails in its middle part: not every event handler recomputes the local
  flag. The handler of a refresh failure leaves it alone, so after one the local flag can
  differ from the adapter's flag read with undefined as false.
\<close>

theorem refresh_error_keeps_flag_counterexample:
  "isAuthenticated (snd (deliver
       \<lparr>event = AuthRefreshError, handle = \<lparr>authenticated = Some False\<rparr>, refresh = None\<rparr>
       (Navbar_useEffect \<lparr>authenticated = Some True\<rparr> (Navbar_useState \<lparr>authenticated = None\<rparr>))))
   \<noteq> Some (nullish (authenticated (handle
       \<lparr>event = AuthRefreshError, handle = \<lparr>authenticated = Some False\<rparr>, refresh = None\<rparr>))
       False)"
  by (simp add: deliver_def Navbar_useEffect_def Navbar_useState_def updateAuthState_def
      nullish_def)

text \<open>
  C10, amended. After the subscription effect of the Session Watcher has first run, the
  locally observed flag is always a definite boolean and never undefined. The effect's
  initial check and the handlers of auth success, logout and refresh success write it as
  the adapter's flag with undefined mapped to false; the handlers of refresh failure and
  token expiry leave it unchanged; so every handled event preserves the invariant.
\<close>

theorem Navbar_flag_definite:
  "isAuthenticated (Navbar_useEffect kc st0) = Some (nullish (authenticated kc) False)
   \<and> isAuthenticated (snd (run ds (Navbar_useEffect kc st0))) \<noteq> None
   \<and> (event d = AuthSuccess \<or> event d = AuthLogout \<or> event d = AuthRefreshSuccess \<longrightarrow>
        isAuthenticated (snd (deliver d st))
          = Some (nullish (authenticated (handle d)) False))
   \<and> (event d = AuthRefreshError \<or> event d = TokenExpired \<longrightarrow> snd (deliver d st) = st)
   \<and> (isAuthenticated st \<noteq> None \<longrightarrow> isAuthenticated (snd (deliver d st)) \<noteq> None)"
proof -
  have a: "isAuthenticated (Navbar_useEffect kc st0) = Some (nullish (authenticated kc) False)"
    by (simp add: Navbar_useEffect_def updateAuthState_def)
  then have "isAuthenticated (Navbar_useEffect kc st0) \<noteq> None"
    by simp
  then have b: "isAuthenticated (snd (run ds (Navbar_useEffect kc st0))) \<noteq> None"
    by (rule run_definite)
  have c: "event d = AuthSuccess \<or> event d = AuthLogout \<or> event d = AuthRefreshSuccess \<longrightarrow>
        isAuthenticated (snd (deliver d st)) = Some (nullish (authenticated (handle d)) False)"
    by (auto simp: deliver_update)
  have e: "event d = AuthRefreshError \<or> event d = TokenExpired \<longrightarrow> snd (deliver d st) = st"
    by (auto simp: deliver_refresh_error deliver_token_expired)
  have f: "isAuthenticated st \<noteq> None \<longrightarrow> isAuthenticated (snd (deliver d st)) \<noteq> None"
    by (simp add: deliver_definite)
  from a b c e f show ?thesis by blast
qed

theorem Navbar_flag_definite_witness:
  "event \<lparr>event = AuthLogout, handle = \<lparr>authenticated = None\<rparr>, refresh = None\<rparr> = AuthLogout
   \<and> isAuthenticated (snd (deliver
         \<lparr>event = AuthLogout, handle = \<lparr>authenticated = None\<rparr>, refresh = None\<rparr>
         \<lparr>isAuthenticated = Some True\<rparr>))
       = Some (nullish (authenticated (handle
           \<lparr>event = AuthLogout, handle = \<lparr>authenticated = None\<rparr>, refresh = None\<rparr>)) False)
   \<and> isAuthenticated \<lparr>isAuthenticated = Some True\<rparr> \<noteq> None
   \<and> isAuthenticated (snd (deliver
         \<lparr>event = AuthLogout, handle = \<lparr>authenticated = None\<rparr>, refresh = None\<rparr>
         \<lparr>isAuthenticated = Some True\<rparr>)) \<noteq> None
   \<and> isAuthenticated (snd (run
         [\<lparr>event = AuthLogout, handle = \<lparr>authenticated = None\<rparr>, refresh = None\<rparr>]
         (Navbar_useEffect \<lparr>authenticated = None\<rparr> (Navbar_useState \<lparr>authenticated = None\<rparr>))))
       \<noteq> None"
proof -
  let ?d = "\<lparr>event = AuthLogout, handle = \<lparr>authenticated = None\<rparr>, refresh = None\<rparr>"
  have h1: "event ?d = AuthLogout" by simp
  have h2: "isAuthenticated \<lparr>isAuthenticated = Some True\<rparr> \<noteq> None" by simp
  from Navbar_flag_definite [of "\<lparr>authenticated = None\<rparr>" "Navbar_useState \<lparr>authenticated = None\<rparr>"
      "[?d]" ?d "\<lparr>isAuthenticated = Some True\<rparr>"] h1 h2
  show ?thesis by blast
qed

end
